theory Spec2Isabelle
  imports Complex_Main
begin

chapter \<open>Professor ratings: aggregation, badge colour and review submission\<close>

text \<open>
  The components of the course catalogue that compute and show professor ratings:
  \<^item> \<^verbatim>\<open>CourseTable\<close> (\<^verbatim>\<open>src/components/CourseTable.tsx\<close>, and the older variant of the
    same component that the repository also holds): \<^verbatim>\<open>fetchProfessorRatings\<close>,
    \<^verbatim>\<open>getRatingBadgeColor\<close>, \<^verbatim>\<open>RatingButton\<close>, \<^verbatim>\<open>handleRateClick\<close>;
  \<^item> \<^verbatim>\<open>ProfessorDetailsModal\<close> (\<^verbatim>\<open>src/components/ProfessorDetailsModal.tsx\<close>, and the
    variant with the review form): \<^verbatim>\<open>fetchReviews\<close>, \<^verbatim>\<open>handleSubmitReview\<close>, the header.

  Asynchronous functions are modelled by the state they leave when their promises have
  settled; the outcome of every call to the store is an input.
\<close>

section \<open>JavaScript numbers\<close>

text \<open>
  A JavaScript number is an IEEE-754 double. A finite double is modelled by its exact
  value, a rational; every arithmetic operation computes the exact result and rounds it
  to the nearest double (\<open>fl\<close>: 53 significant bits, ties to the even significand).
  That is the double rounding for magnitudes between \<open>2^-1022\<close> and \<open>2^1024\<close>, the range
  of every number of this program (ratings, their sums, their means). \<open>NaN\<close> and the
  infinities are not represented: the one division of the program is guarded by
  \<open>reviews.length > 0\<close>.
\<close>

type_synonym number = rat

text \<open>The unit in the last place of a positive \<open>x\<close>: \<open>2^(e - 52)\<close> where \<open>2^e \<le> x < 2^(e + 1)\<close>.\<close>

function ulp :: "rat \<Rightarrow> rat" where
  "ulp x = (if 2 \<le> x then 2 * ulp (x / 2)
            else if 0 < x \<and> x < 1 then ulp (2 * x) / 2
            else 1 / 2 ^ 52)"
  by pat_completeness auto
termination
proof (relation "measure (\<lambda>x. if 1 \<le> x then nat \<lfloor>x\<rfloor> else nat \<lfloor>1 / x\<rfloor> + 1)")
  show "wf (measure (\<lambda>x::rat. if 1 \<le> x then nat \<lfloor>x\<rfloor> else nat \<lfloor>1 / x\<rfloor> + 1))"
    by simp
next
  fix x :: rat
  assume "2 \<le> x"
  then have "\<lfloor>x / 2\<rfloor> < \<lfloor>x\<rfloor>" by linarith
  moreover have "0 < \<lfloor>x\<rfloor>" using \<open>2 \<le> x\<close> by linarith
  ultimately show "(x / 2, x) \<in> measure (\<lambda>x. if 1 \<le> x then nat \<lfloor>x\<rfloor> else nat \<lfloor>1 / x\<rfloor> + 1)"
    using \<open>2 \<le> x\<close> by auto
next
  fix x :: rat
  assume a: "\<not> 2 \<le> x" "0 < x \<and> x < 1"
  show "(2 * x, x) \<in> measure (\<lambda>x. if 1 \<le> x then nat \<lfloor>x\<rfloor> else nat \<lfloor>1 / x\<rfloor> + 1)"
  proof (cases "1 \<le> 2 * x")
    case True
    have "2 * x < 2" using a by simp
    then have "\<lfloor>2 * x\<rfloor> = 1" using True by linarith
    moreover have "1 < 1 / x" using a by simp
    then have "1 \<le> \<lfloor>1 / x\<rfloor>" by linarith
    ultimately show ?thesis using a True by auto
  next
    case False
    define y where "y = 1 / x"
    from False a have "2 < y" by (simp add: y_def field_simps)
    then have "\<lfloor>y / 2\<rfloor> < \<lfloor>y\<rfloor>" by linarith
    moreover have "1 / (2 * x) = y / 2" by (simp add: y_def)
    ultimately have "\<lfloor>1 / (2 * x)\<rfloor> < \<lfloor>1 / x\<rfloor>" by (simp add: y_def mult.commute)
    moreover have "0 < \<lfloor>1 / x\<rfloor>" using \<open>2 < y\<close> unfolding y_def by linarith
    ultimately show ?thesis using a False by simp
  qed
qed

definition round_half_even :: "rat \<Rightarrow> int" where
  "round_half_even q =
     (let n = \<lfloor>q\<rfloor>; r = q - of_int n
      in if r < 1 / 2 then n
         else if 1 / 2 < r then n + 1
         else if even n then n else n + 1)"

definition fl :: "rat \<Rightarrow> number" where
  "fl x = (if x = 0 then 0
           else let u = ulp \<bar>x\<bar>
                in sgn x * of_int (round_half_even (\<bar>x\<bar> / u)) * u)"

text \<open>\<^verbatim>\<open>a + b\<close>, \<^verbatim>\<open>a / b\<close> and \<^verbatim>\<open>a * b\<close> on numbers.\<close>

definition js_add :: "number \<Rightarrow> number \<Rightarrow> number" where
  "js_add a b = fl (a + b)"

definition js_div :: "number \<Rightarrow> number \<Rightarrow> number" where
  "js_div a b = fl (a / b)"

definition js_mul :: "number \<Rightarrow> number \<Rightarrow> number" where
  "js_mul a b = fl (a * b)"

section \<open>Numbers as text\<close>

text \<open>
  Strings are lists of UTF-16 code units; every code unit of this program is below 256
  (\<open>0xA1\<close> inverted exclamation mark, \<open>0xF1\<close> n with tilde, \<open>0xF3\<close> o with acute).
\<close>

definition digit_char :: "nat \<Rightarrow> char" where
  "digit_char d = char_of (48 + d)"

text \<open>The decimal digits of a natural number.\<close>

fun dec :: "nat \<Rightarrow> string" where
  "dec n = (if n < 10 then [digit_char n] else dec (n div 10) @ [digit_char (n mod 10)])"

text \<open>
  \<^verbatim>\<open>x.toFixed(1)\<close> (ECMAScript, Number.prototype.toFixed with one fraction digit): a
  negative \<open>x\<close> gives a minus sign and is negated; then \<open>n\<close> is the integer for which
  \<open>n / 10 - x\<close> is as close to zero as possible, the larger one if there are two; the
  result is the digits of \<open>n\<close> with a decimal point before the last one. (From \<open>10^21\<close>
  on toFixed switches to exponent notation; the numbers here are far below.)
  \<open>toFixed1_n\<close> is that integer, with the sign of \<open>x\<close>.
\<close>

definition toFixed1_n :: "number \<Rightarrow> int" where
  "toFixed1_n x = (if x < 0 then - \<lfloor>- x * 10 + 1 / 2\<rfloor> else \<lfloor>x * 10 + 1 / 2\<rfloor>)"

definition toFixed1 :: "number \<Rightarrow> string" where
  "toFixed1 x =
     (let n = nat \<bar>toFixed1_n x\<bar>
      in (if x < 0 then ''-'' else []) @ dec (n div 10) @ ''.'' @ dec (n mod 10))"

text \<open>
  \<^verbatim>\<open>Number(x.toFixed(1))\<close>: the text that toFixed wrote denotes \<open>n / 10\<close> exactly, and
  Number reads a decimal literal as the double nearest to it.
\<close>

definition Number_of_tenths :: "int \<Rightarrow> number" where
  "Number_of_tenths n = fl (of_int n / 10)"

definition Number_toFixed1 :: "number \<Rightarrow> number" where
  "Number_toFixed1 x = Number_of_tenths (toFixed1_n x)"


section \<open>CourseTable: the badge colour\<close>

text \<open>
  \<^verbatim>\<open>getRatingBadgeColor\<close> (the same function in both variants of CourseTable):
  \<^verbatim>\<open>if (rating >= 4) return 'bg-green-500'; if (rating >= 3) return 'bg-yellow-500';
  return 'bg-red-500';\<close>
\<close>

definition getRatingBadgeColor :: "number \<Rightarrow> string" where
  "getRatingBadgeColor rating =
     (if rating \<ge> 4 then ''bg-green-500''
      else if rating \<ge> 3 then ''bg-yellow-500''
      else ''bg-red-500'')"

section \<open>The review documents and the remote store\<close>

text \<open>
  A document of the Firestore collection \<^verbatim>\<open>reviews\<close>. The modal writes
  \<^verbatim>\<open>professorId, userId, userName, rating, comment, timestamp\<close>; the four sub-ratings
  are read by CourseTable as \<^verbatim>\<open>review.clarity || 0\<close> and may be absent.
\<close>

record review =
  professorId :: string
  userId :: string
  userName :: string
  rating :: number
  clarity :: "number option"
  fairness :: "number option"
  punctuality :: "number option"
  wouldTakeAgain :: "number option"
  comment :: string
  timestamp :: string

datatype error = FirestoreError

text \<open>
  \<^verbatim>\<open>getDocs(query(collection(firestore, 'reviews'), where('professorId', '==', p)))\<close>
  followed by \<^verbatim>\<open>docs.map(doc => doc.data())\<close>, and \<^verbatim>\<open>addDoc\<close>. The store is an
  external service: whether a call succeeds is an input (\<open>ok\<close>); a rejected promise is
  \<open>Inl\<close>, and a rejected write leaves the collection as it was.
\<close>

definition getDocs :: "bool \<Rightarrow> review list \<Rightarrow> string \<Rightarrow> error + review list" where
  "getDocs ok coll p =
     (if ok then Inr (filter (\<lambda>d. professorId d = p) coll) else Inl FirestoreError)"

definition addDoc :: "bool \<Rightarrow> review list \<Rightarrow> review \<Rightarrow> error + review list" where
  "addDoc ok coll d = (if ok then Inr (coll @ [d]) else Inl FirestoreError)"

text \<open>\<^verbatim>\<open>console.error\<close> calls, each with its printed arguments (the error object left out).\<close>

type_synonym console = "string list list"

section \<open>CourseTable: the rating aggregator\<close>

text \<open>
  The entry of \<^verbatim>\<open>ProfessorRating\<close> for one professor; the accumulator of the reduce has
  the same five fields. (The fields carry the prefix \<open>pr_\<close>: a review document has fields
  of the same names.)
\<close>

record ProfessorRating =
  pr_rating :: number
  pr_clarity :: number
  pr_fairness :: number
  pr_punctuality :: number
  pr_wouldTakeAgain :: number

record Section =
  sectionId :: string
  professor :: string

text \<open>\<^verbatim>\<open>[...new Set(sections.map(section => section.professor))]\<close>: first occurrences, in order.\<close>

definition uniqueProfessors :: "Section list \<Rightarrow> string list" where
  "uniqueProfessors sections = rev (remdups (rev (map professor sections)))"

text \<open>\<^verbatim>\<open>review.clarity || 0\<close>: an absent field (and a zero) gives 0.\<close>

definition or_zero :: "number option \<Rightarrow> number" where
  "or_zero v = (case v of None \<Rightarrow> 0 | Some c \<Rightarrow> c)"

text \<open>The callback and the initial value of \<^verbatim>\<open>reviews.reduce\<close>.\<close>

definition totals_step :: "ProfessorRating \<Rightarrow> review \<Rightarrow> ProfessorRating" where
  "totals_step acc review =
     \<lparr>pr_rating = js_add (pr_rating acc) (rating review),
      pr_clarity = js_add (pr_clarity acc) (or_zero (clarity review)),
      pr_fairness = js_add (pr_fairness acc) (or_zero (fairness review)),
      pr_punctuality = js_add (pr_punctuality acc) (or_zero (punctuality review)),
      pr_wouldTakeAgain = js_add (pr_wouldTakeAgain acc) (or_zero (wouldTakeAgain review))\<rparr>"

definition totals_init :: ProfessorRating where
  "totals_init =
     \<lparr>pr_rating = 0, pr_clarity = 0, pr_fairness = 0, pr_punctuality = 0,
      pr_wouldTakeAgain = 0\<rparr>"

text \<open>
  The body of \<^verbatim>\<open>if (reviews.length > 0)\<close>: the value stored in \<^verbatim>\<open>ratings[professor]\<close>.
  It is evaluated on a list that is not empty only.
\<close>

definition average_entry :: "review list \<Rightarrow> ProfessorRating" where
  "average_entry reviews =
     (let totals = foldl totals_step totals_init reviews;
          count = of_nat (length reviews)
      in \<lparr>pr_rating = Number_toFixed1 (js_div (pr_rating totals) count),
          pr_clarity = Number_toFixed1 (js_div (pr_clarity totals) count),
          pr_fairness = Number_toFixed1 (js_div (pr_fairness totals) count),
          pr_punctuality = Number_toFixed1 (js_div (pr_punctuality totals) count),
          pr_wouldTakeAgain = Number_toFixed1 (js_div (pr_wouldTakeAgain totals) count)\<rparr>)"

text \<open>
  The loop \<^verbatim>\<open>for (const professor of uniqueProfessors)\<close> with its try/catch, on the
  object \<^verbatim>\<open>ratings\<close> and the console. \<open>online p\<close> says whether the query for \<open>p\<close>
  succeeds.
\<close>

fun fetch_loop ::
  "(string \<Rightarrow> bool) \<Rightarrow> review list \<Rightarrow> string list \<Rightarrow>
   (string \<rightharpoonup> ProfessorRating) \<times> console \<Rightarrow> (string \<rightharpoonup> ProfessorRating) \<times> console" where
  "fetch_loop online coll [] acc = acc"
| "fetch_loop online coll (p # rest) (ratings, errs) =
     (case getDocs (online p) coll p of
        Inl e \<Rightarrow>
          fetch_loop online coll rest
            (ratings, errs @ [[''Error fetching ratings for professor:'', p]])
      | Inr reviews \<Rightarrow>
          fetch_loop online coll rest
            (if length reviews > 0 then ratings(p \<mapsto> average_entry reviews) else ratings,
             errs))"

text \<open>
  \<^verbatim>\<open>fetchProfessorRatings\<close> of \<^verbatim>\<open>src/components/CourseTable.tsx\<close>: the first component
  is the object passed to \<^verbatim>\<open>setProfessorRatings\<close>, as the map from each professor to
  the value assigned to \<^verbatim>\<open>ratings[professor]\<close>.
\<close>

definition fetchProfessorRatings ::
  "(string \<Rightarrow> bool) \<Rightarrow> review list \<Rightarrow> Section list \<Rightarrow>
   (string \<rightharpoonup> ProfessorRating) \<times> console" where
  "fetchProfessorRatings online coll sections =
     fetch_loop online coll (uniqueProfessors sections) (Map.empty, [])"

text \<open>
  Reading \<^verbatim>\<open>professorRatings[professor]\<close>. The ratings object is a plain object
  (\<^verbatim>\<open>const ratings = {}\<close>); the map above holds, for each professor, the value of the
  assignment \<^verbatim>\<open>ratings[professor] = ...\<close>. A read that finds no property of the object
  itself goes on to its prototype chain, so the members of \<^verbatim>\<open>Object.prototype\<close> answer
  under their names. The assignment to \<^verbatim>\<open>__proto__\<close> runs the setter of
  \<^verbatim>\<open>Object.prototype\<close>: an object value (an entry) becomes the prototype of the ratings
  object, whose five fields are then inherited numbers, and is what a read of
  \<^verbatim>\<open>__proto__\<close> returns; a value that is not an object (the number of the older
  variant) is ignored, and a read of \<^verbatim>\<open>__proto__\<close> returns \<^verbatim>\<open>Object.prototype\<close>.
\<close>

datatype 'a js_read = Undefined | Stored 'a | Inherited_number number | Inherited_object

definition Object_prototype_names :: "string list" where
  "Object_prototype_names =
     [''constructor'', ''__defineGetter__'', ''__defineSetter__'', ''hasOwnProperty'',
      ''__lookupGetter__'', ''__lookupSetter__'', ''isPrototypeOf'',
      ''propertyIsEnumerable'', ''toString'', ''valueOf'', ''__proto__'',
      ''toLocaleString'']"

definition entry_field :: "ProfessorRating \<Rightarrow> string \<Rightarrow> number option" where
  "entry_field e name =
     (if name = ''rating'' then Some (pr_rating e)
      else if name = ''clarity'' then Some (pr_clarity e)
      else if name = ''fairness'' then Some (pr_fairness e)
      else if name = ''punctuality'' then Some (pr_punctuality e)
      else if name = ''wouldTakeAgain'' then Some (pr_wouldTakeAgain e)
      else None)"

definition professorRatings_at ::
  "(string \<rightharpoonup> ProfessorRating) \<Rightarrow> string \<Rightarrow> ProfessorRating js_read" where
  "professorRatings_at professorRatings p =
     (if p = ''__proto__''
      then (case professorRatings p of Some e \<Rightarrow> Stored e | None \<Rightarrow> Inherited_object)
      else
        case professorRatings p of
          Some e \<Rightarrow> Stored e
        | None \<Rightarrow>
            (case Option.bind (professorRatings ''__proto__'') (\<lambda>e. entry_field e p) of
               Some v \<Rightarrow> Inherited_number v
             | None \<Rightarrow>
                 if p \<in> set Object_prototype_names then Inherited_object else Undefined))"

text \<open>
  \<^verbatim>\<open>RatingButton\<close>: the colour class spliced into \<^verbatim>\<open>className\<close> and the text of the
  button. \<^verbatim>\<open>if (!ratings)\<close> gives the grey button for \<^verbatim>\<open>undefined\<close> and for the number
  zero; on any other value that is not an entry, \<^verbatim>\<open>ratings.rating\<close> is
  \<^verbatim>\<open>undefined\<close> and \<^verbatim>\<open>ratings.rating.toFixed(1)\<close> throws a TypeError.
\<close>

record button =
  colour :: string
  caption :: string

datatype render_error = TypeError

definition Sin_calificacion :: string where
  "Sin_calificacion = ''Sin calificaci'' @ [CHR 0xF3] @ ''n''"

definition gray_button :: "bool \<Rightarrow> button" where
  "gray_button darkMode =
     \<lparr>colour = (if darkMode then ''bg-gray-700'' else ''bg-gray-200''),
      caption = Sin_calificacion\<rparr>"

definition RatingButton ::
  "bool \<Rightarrow> (string \<rightharpoonup> ProfessorRating) \<Rightarrow> string \<Rightarrow> render_error + button" where
  "RatingButton darkMode professorRatings p =
     (case professorRatings_at professorRatings p of
        Undefined \<Rightarrow> Inr (gray_button darkMode)
      | Stored ratings \<Rightarrow>
          Inr \<lparr>colour = getRatingBadgeColor (pr_rating ratings),
               caption = toFixed1 (pr_rating ratings) @ ''/5''\<rparr>
      | Inherited_number v \<Rightarrow> if v = 0 then Inr (gray_button darkMode) else Inl TypeError
      | Inherited_object \<Rightarrow> Inl TypeError)"

section \<open>CourseTable: the older variant\<close>

text \<open>
  The second CourseTable of the repository keeps one number for each professor:
  \<^verbatim>\<open>average = reviews.reduce((acc, review) => acc + review.rating, 0) / reviews.length;
  ratings[professor] = Number(average.toFixed(1))\<close>. ProfessorDetailsModal computes its
  \<^verbatim>\<open>averageRating\<close> with the same two lines, on \<^verbatim>\<open>reviewsData\<close>. Both do so under
  the test that the list is not empty.
\<close>

definition average_rating :: "review list \<Rightarrow> number" where
  "average_rating reviews =
     Number_toFixed1
       (js_div (foldl (\<lambda>acc review. js_add acc (rating review)) 0 reviews)
          (of_nat (length reviews)))"

fun fetch_loop_old ::
  "(string \<Rightarrow> bool) \<Rightarrow> review list \<Rightarrow> string list \<Rightarrow>
   (string \<rightharpoonup> number) \<times> console \<Rightarrow> (string \<rightharpoonup> number) \<times> console" where
  "fetch_loop_old online coll [] acc = acc"
| "fetch_loop_old online coll (p # rest) (ratings, errs) =
     (case getDocs (online p) coll p of
        Inl e \<Rightarrow>
          fetch_loop_old online coll rest
            (ratings, errs @ [[''Error fetching ratings for professor:'', p]])
      | Inr reviews \<Rightarrow>
          fetch_loop_old online coll rest
            (if length reviews > 0 then ratings(p \<mapsto> average_rating reviews) else ratings,
             errs))"

definition fetchProfessorRatings_old ::
  "(string \<Rightarrow> bool) \<Rightarrow> review list \<Rightarrow> Section list \<Rightarrow> (string \<rightharpoonup> number) \<times> console" where
  "fetchProfessorRatings_old online coll sections =
     fetch_loop_old online coll (uniqueProfessors sections) (Map.empty, [])"

text \<open>
  In a table row of the older variant:
  \<^verbatim>\<open>professorRating = professorRatings[section.professor]\<close> and
  \<^verbatim>\<open>normalizedRating = professorRating ? (professorRating * 2) : null\<close>. A number is
  truthy unless it is zero; an inherited member of \<^verbatim>\<open>Object.prototype\<close> is truthy and
  its product with 2 is \<^verbatim>\<open>NaN\<close>. The older ratings object holds numbers, so its
  prototype is never replaced. \<open>None\<close> is \<^verbatim>\<open>null\<close>.
\<close>

definition professorRatings_at_old :: "(string \<rightharpoonup> number) \<Rightarrow> string \<Rightarrow> number js_read" where
  "professorRatings_at_old professorRatings p =
     (if p = ''__proto__'' then Inherited_object
      else
        case professorRatings p of
          Some v \<Rightarrow> Stored v
        | None \<Rightarrow> if p \<in> set Object_prototype_names then Inherited_object else Undefined)"

datatype js_number = NaN | Finite number

definition normalizedRating :: "(string \<rightharpoonup> number) \<Rightarrow> string \<Rightarrow> js_number option" where
  "normalizedRating professorRatings p =
     (case professorRatings_at_old professorRatings p of
        Undefined \<Rightarrow> None
      | Stored professorRating \<Rightarrow>
          if professorRating \<noteq> 0 then Some (Finite (js_mul professorRating 2)) else None
      | Inherited_number v \<Rightarrow> if v \<noteq> 0 then Some (Finite (js_mul v 2)) else None
      | Inherited_object \<Rightarrow> Some NaN)"

text \<open>
  The older \<^verbatim>\<open>RatingButton\<close>: \<^verbatim>\<open>rating ? getRatingBadgeColor(rating) : ...\<close> and
  \<^verbatim>\<open>rating ? `${rating.toFixed(1)}/10` : 'Sin calificaci..n'\<close>; \<^verbatim>\<open>null\<close>, \<^verbatim>\<open>NaN\<close>
  and zero are falsy.
\<close>

definition RatingButton_old :: "bool \<Rightarrow> js_number option \<Rightarrow> button" where
  "RatingButton_old darkMode normalized =
     (case normalized of
        None \<Rightarrow> gray_button darkMode
      | Some NaN \<Rightarrow> gray_button darkMode
      | Some (Finite r) \<Rightarrow>
          if r \<noteq> 0
          then \<lparr>colour = getRatingBadgeColor r, caption = toFixed1 r @ ''/10''\<rparr>
          else gray_button darkMode)"

section \<open>CourseTable: opening the review modal\<close>

record user =
  uid :: string
  displayName :: "string option"

text \<open>
  The state of CourseTable that \<^verbatim>\<open>handleRateClick\<close> touches, and the calls of the
  property \<^verbatim>\<open>onRateSection\<close> (the parent's callback, not part of this component).
\<close>

record table_state =
  selectedProfessor :: "(string \<times> string) option"
  showReviewModal :: bool
  selectedSection :: string
  onRateSection_calls :: "string list"

definition handleRateClick ::
  "user option \<Rightarrow> string \<Rightarrow> string \<Rightarrow> table_state \<Rightarrow> table_state" where
  "handleRateClick currentUser section_id professor_id t =
     (case currentUser of
        None \<Rightarrow> t\<lparr>onRateSection_calls := onRateSection_calls t @ [section_id]\<rparr>
      | Some u \<Rightarrow>
          t\<lparr>selectedSection := section_id,
            selectedProfessor := Some (professor_id, professor_id),
            showReviewModal := True\<rparr>)"

text \<open>\<^verbatim>\<open>{showReviewModal && selectedProfessor && auth.currentUser && (<ReviewModal .../>)}\<close>\<close>

definition ReviewModal_shown :: "user option \<Rightarrow> table_state \<Rightarrow> bool" where
  "ReviewModal_shown currentUser t =
     (showReviewModal t \<and> selectedProfessor t \<noteq> None \<and> currentUser \<noteq> None)"

section \<open>ProfessorDetailsModal\<close>

text \<open>The React state of the modal, with the initial values of its \<^verbatim>\<open>useState\<close> calls.\<close>

record modal_state =
  reviews :: "review list"
  loading :: bool
  averageRating :: number
  newRating :: number
  newComment :: string
  submitting :: bool


text \<open>
  What the modal does to the outside: the collection \<^verbatim>\<open>reviews\<close> of the store, the
  toasts shown, the console, and the calls made to the store.
\<close>

datatype toast = ToastError string | ToastSuccess string

datatype remote_call = GetDocs string | AddDoc review

record world =
  docs :: "review list"
  toasts :: "toast list"
  console_out :: console
  calls :: "remote_call list"

text \<open>
  \<^verbatim>\<open>fetchReviews\<close>: the state after the promise has settled. \<^verbatim>\<open>setAverageRating\<close> is
  called only under \<^verbatim>\<open>if (reviewsData.length > 0)\<close>; on a rejected query
  \<^verbatim>\<open>setReviews\<close> is not reached.
\<close>

definition fetchReviews ::
  "bool \<Rightarrow> string \<Rightarrow> modal_state \<times> world \<Rightarrow> modal_state \<times> world" where
  "fetchReviews fetch_ok professor_id = (\<lambda>(st, w).
     let st1 = st\<lparr>loading := True\<rparr>;
         w1 = w\<lparr>calls := calls w @ [GetDocs professor_id]\<rparr>
     in case getDocs fetch_ok (docs w) professor_id of
          Inl e \<Rightarrow>
            (st1\<lparr>loading := False\<rparr>,
             w1\<lparr>console_out := console_out w1 @ [[''Error fetching reviews:'']]\<rparr>)
        | Inr reviewsData \<Rightarrow>
            let st2 = st1\<lparr>reviews := reviewsData\<rparr>;
                st3 = (if length reviewsData > 0
                       then st2\<lparr>averageRating := average_rating reviewsData\<rparr>
                       else st2)
            in (st3\<lparr>loading := False\<rparr>, w1))"


definition Usuario_Anonimo :: string where
  "Usuario_Anonimo = ''Usuario An'' @ [CHR 0xF3] @ ''nimo''"

definition Debes_iniciar_sesion :: string where
  "Debes_iniciar_sesion =
     ''Debes iniciar sesi'' @ [CHR 0xF3] @ ''n para dejar una rese'' @ [CHR 0xF1] @ ''a''"

definition Resena_enviada :: string where
  "Resena_enviada = [CHR 0xA1] @ ''Rese'' @ [CHR 0xF1] @ ''a enviada exitosamente!''"

definition Error_al_enviar :: string where
  "Error_al_enviar = ''Error al enviar la rese'' @ [CHR 0xF1] @ ''a''"

text \<open>
  The document that \<^verbatim>\<open>handleSubmitReview\<close> passes to \<^verbatim>\<open>addDoc\<close>; \<open>now\<close> is
  \<^verbatim>\<open>new Date().toISOString()\<close>, the clock of the client.
\<close>

definition new_review :: "user \<Rightarrow> string \<Rightarrow> string \<Rightarrow> modal_state \<Rightarrow> review" where
  "new_review u now professor_id st =
     \<lparr>professorId = professor_id,
      userId = uid u,
      userName = (case displayName u of
                    None \<Rightarrow> Usuario_Anonimo
                  | Some n \<Rightarrow> if n = [] then Usuario_Anonimo else n),
      rating = newRating st,
      clarity = None, fairness = None, punctuality = None, wouldTakeAgain = None,
      comment = newComment st,
      timestamp = now\<rparr>"

text \<open>
  \<^verbatim>\<open>handleSubmitReview\<close>, to the point where every promise has settled. \<open>write_ok\<close> and
  \<open>fetch_ok\<close> are the outcomes of \<^verbatim>\<open>addDoc\<close> and of the query of the following
  \<^verbatim>\<open>fetchReviews()\<close>.
\<close>

definition handleSubmitReview ::
  "user option \<Rightarrow> bool \<Rightarrow> bool \<Rightarrow> string \<Rightarrow> string \<Rightarrow> modal_state \<times> world \<Rightarrow>
   modal_state \<times> world" where
  "handleSubmitReview currentUser write_ok fetch_ok now professor_id = (\<lambda>(st, w).
     case currentUser of
       None \<Rightarrow> (st, w\<lparr>toasts := toasts w @ [ToastError Debes_iniciar_sesion]\<rparr>)
     | Some u \<Rightarrow>
         let st1 = st\<lparr>submitting := True\<rparr>;
             d = new_review u now professor_id st;
             w1 = w\<lparr>calls := calls w @ [AddDoc d]\<rparr>
         in case addDoc write_ok (docs w) d of
              Inl e \<Rightarrow>
                (st1\<lparr>submitting := False\<rparr>,
                 w1\<lparr>console_out := console_out w1 @ [[Error_al_enviar @ '':'']],
                    toasts := toasts w1 @ [ToastError Error_al_enviar]\<rparr>)
            | Inr docs' \<Rightarrow>
                let w2 = w1\<lparr>docs := docs', toasts := toasts w1 @ [ToastSuccess Resena_enviada]\<rparr>;
                    st2 = st1\<lparr>newComment := [], newRating := 5\<rparr>;
                    (st3, w3) = fetchReviews fetch_ok professor_id (st2, w2)
                in (st3\<lparr>submitting := False\<rparr>, w3))"



section \<open>Vocabulary of the properties\<close>

text \<open>The arithmetic mean of a list of exact values.\<close>

definition arithmetic_mean :: "rat list \<Rightarrow> rat" where
  "arithmetic_mean xs = sum_list xs / of_nat (length xs)"

text \<open>
  \<open>v\<close> is \<open>mean\<close> rounded to one decimal place: the double that \<^verbatim>\<open>Number\<close> reads from a
  decimal \<open>m / 10\<close> which is a tenth nearest to \<open>mean\<close>.
\<close>

definition rounded_to_one_decimal :: "rat \<Rightarrow> number \<Rightarrow> bool" where
  "rounded_to_one_decimal mean v =
     (\<exists>m::int. v = Number_of_tenths m \<and> \<bar>of_int m / 10 - mean\<bar> \<le> 1 / 20)"

text \<open>
  The ratings of the data model: whole numbers of stars, at most 5 (the select of the
  review form offers 1 to 5). A review is well formed when its overall rating and the
  sub-ratings it has are such numbers.
\<close>

definition star_value :: "number \<Rightarrow> bool" where
  "star_value x = (x \<in> \<nat> \<and> x \<le> 5)"

definition well_formed :: "review \<Rightarrow> bool" where
  "well_formed r =
     (star_value (rating r) \<and> star_value (or_zero (clarity r)) \<and>
      star_value (or_zero (fairness r)) \<and> star_value (or_zero (punctuality r)) \<and>
      star_value (or_zero (wouldTakeAgain r)))"

text \<open>
  A professor name that no object on the prototype chain of a ratings object answers to:
  not a member of \<^verbatim>\<open>Object.prototype\<close> and not a field of an entry.
\<close>

definition plain_name :: "string \<Rightarrow> bool" where
  "plain_name p =
     (p \<notin> set Object_prototype_names \<and>
      p \<notin> set [''rating'', ''clarity'', ''fairness'', ''punctuality'', ''wouldTakeAgain''])"

section \<open>Example data\<close>

definition review_of :: "string \<Rightarrow> number \<Rightarrow> number option \<Rightarrow> review" where
  "review_of p r c =
     \<lparr>professorId = p, userId = ''u1'', userName = ''Ana'', rating = r,
      clarity = c, fairness = None, punctuality = None, wouldTakeAgain = None,
      comment = ''ok'', timestamp = ''2024-05-01T10:00:00.000Z''\<rparr>"

definition example_sections :: "Section list" where
  "example_sections =
     [\<lparr>sectionId = ''s1'', professor = ''Jane Doe''\<rparr>,
      \<lparr>sectionId = ''s2'', professor = ''Juan Perez''\<rparr>,
      \<lparr>sectionId = ''s3'', professor = ''Jane Doe''\<rparr>]"

definition example_coll :: "review list" where
  "example_coll =
     [review_of ''Jane Doe'' 5 (Some 5), review_of ''Ana Ruiz'' 2 None,
      review_of ''Jane Doe'' 4 None, review_of ''Jane Doe'' 4 None]"

definition jane_coll :: "review list" where
  "jane_coll =
     [review_of ''Jane Doe'' 5 None, review_of ''Ana Ruiz'' 1 None,
      review_of ''Jane Doe'' 4 None, review_of ''Jane Doe'' 3 None]"

definition example_world :: world where
  "example_world = \<lparr>docs = example_coll, toasts = [], console_out = [], calls = []\<rparr>"

definition example_user :: user where
  "example_user = \<lparr>uid = ''u7'', displayName = None\<rparr>"

definition example_form :: modal_state where
  "example_form =
     \<lparr>reviews = filter (\<lambda>d. professorId d = ''Jane Doe'') example_coll, loading = False,
      averageRating = Number_of_tenths 43, newRating = 3, newComment = ''Explica bien'',
      submitting = False\<rparr>"

section \<open>Rounding to the nearest double\<close>

lemma ulp_pos: "0 < ulp x"
  by (induction x rule: ulp.induct) (subst ulp.simps, simp)

lemma ulp_bounds: "0 < x \<Longrightarrow> ulp x * 2 ^ 52 \<le> x \<and> x < ulp x * 2 ^ 53"
proof (induction x rule: ulp.induct)
  case (1 x)
  show ?case
  proof (cases "2 \<le> x")
    case True
    with 1 have "ulp (x / 2) * 2 ^ 52 \<le> x / 2 \<and> x / 2 < ulp (x / 2) * 2 ^ 53" by simp
    moreover have "ulp x = 2 * ulp (x / 2)" using True by (subst ulp.simps) simp
    ultimately show ?thesis by simp
  next
    case False
    show ?thesis
    proof (cases "x < 1")
      case True
      with 1 False have "ulp (2 * x) * 2 ^ 52 \<le> 2 * x \<and> 2 * x < ulp (2 * x) * 2 ^ 53" by simp
      moreover have "ulp x = ulp (2 * x) / 2" using True False 1(3) by (subst ulp.simps) simp
      ultimately show ?thesis by simp
    next
      case ge: False
      have "ulp x = 1 / 2 ^ 52" using False ge by (subst ulp.simps) simp
      then show ?thesis using False ge by simp
    qed
  qed
qed

text \<open>From 1 on, the unit in the last place is a power of two over \<open>2^52\<close>.\<close>

lemma ulp_pow2: "1 \<le> x \<Longrightarrow> \<exists>j::nat. ulp x = 2 ^ j / 2 ^ 52 \<and> 2 ^ j \<le> x"
proof (induction x rule: ulp.induct)
  case (1 x)
  show ?case
  proof (cases "2 \<le> x")
    case True
    then have "1 \<le> x / 2" by simp
    from 1(1) [OF True this]
    obtain j :: nat where j: "ulp (x / 2) = 2 ^ j / 2 ^ 52" "2 ^ j \<le> x / 2" by blast
    have "ulp x = 2 * ulp (x / 2)" using True by (subst ulp.simps) simp
    with j have "ulp x = 2 ^ Suc j / 2 ^ 52 \<and> 2 ^ Suc j \<le> x"
      by (simp only: power_Suc times_divide_eq_right) simp
    then show ?thesis by blast
  next
    case False
    have "ulp x = 1 / 2 ^ 52" using False 1(3) by (subst ulp.simps) simp
    then have "ulp x = 2 ^ 0 / 2 ^ 52 \<and> 2 ^ 0 \<le> x" using 1(3) by simp
    then show ?thesis by blast
  qed
qed

lemma round_half_even_of_int: "round_half_even (of_int k) = k"
  by (simp add: round_half_even_def)

lemma round_half_even_error: "\<bar>of_int (round_half_even q) - q\<bar> \<le> 1 / 2"
proof -
  have "of_int \<lfloor>q\<rfloor> \<le> q" "q < of_int \<lfloor>q\<rfloor> + 1" by linarith+
  then show ?thesis
    by (auto simp: round_half_even_def Let_def)
qed

text \<open>The relative error of one rounding is at most \<open>2^-53\<close>.\<close>

lemma fl_error:
  assumes "0 < x"
  shows "\<bar>fl x - x\<bar> \<le> x / 2 ^ 53"
proof -
  define u where "u = ulp x"
  have u: "0 < u" "u * 2 ^ 52 \<le> x" using ulp_pos ulp_bounds [OF assms] by (simp_all add: u_def)
  have "fl x = of_int (round_half_even (x / u)) * u"
    using assms by (simp add: fl_def u_def Let_def)
  then have "fl x - x = (of_int (round_half_even (x / u)) - x / u) * u"
    using u(1) by (simp add: field_simps)
  then have "\<bar>fl x - x\<bar> = \<bar>of_int (round_half_even (x / u)) - x / u\<bar> * u"
    using u(1) by (simp add: abs_mult)
  also have "\<dots> \<le> (1 / 2) * u"
    using round_half_even_error [of "x / u"] u(1) by (intro mult_right_mono) simp_all
  also have "\<dots> \<le> x / 2 ^ 53" using u(2) by simp
  finally show ?thesis .
qed

text \<open>Every natural number below \<open>2^53\<close> is a double.\<close>

lemma fl_of_nat:
  assumes "n < 2 ^ 53"
  shows "fl (of_nat n) = of_nat n"
proof (cases "n = 0")
  case True
  then show ?thesis by (simp add: fl_def)
next
  case False
  define x :: rat where "x = of_nat n"
  have x1: "1 \<le> x" using False by (simp add: x_def)
  then obtain j :: nat where j: "ulp x = 2 ^ j / 2 ^ 52" "2 ^ j \<le> x" using ulp_pow2 by blast
  have "x < 2 ^ 53" using assms unfolding x_def
    by (metis of_nat_less_iff of_nat_numeral of_nat_power)
  with j(2) have "(2::rat) ^ j < 2 ^ 53" by simp
  then have "j < 53"
    by (simp only: power_strict_increasing_iff one_less_numeral_iff semiring_norm)
  then have jle: "j \<le> 52" by simp
  define k where "k = 52 - j"
  have "(52::nat) = j + k" using jle by (simp add: k_def)
  then have "(2::rat) ^ 52 = 2 ^ j * 2 ^ k" by (simp only: power_add)
  then have u: "ulp x * 2 ^ k = 1"
    unfolding j(1) by (simp only: times_divide_eq_left) simp
  have pk: "(2::rat) ^ k = of_int (2 ^ k)" by simp
  have "x / ulp x = x * 2 ^ k"
    using u ulp_pos [of x] by (simp add: field_simps)
  also have "\<dots> = of_int (int n * 2 ^ k)"
    unfolding x_def pk by (simp only: of_int_mult of_int_of_nat_eq)
  finally have q: "x / ulp x = of_int (int n * 2 ^ k)" .
  then have "round_half_even (x / ulp x) = int n * 2 ^ k"
    by (simp only: round_half_even_of_int)
  moreover have "ulp x \<noteq> 0" using ulp_pos [of x] by simp
  then have "x = of_int (int n * 2 ^ k) * ulp x"
    using q by (metis nonzero_divide_eq_eq)
  ultimately have r: "of_int (round_half_even (x / ulp x)) * ulp x = x" by simp
  have ax: "\<bar>x\<bar> = x" "sgn x = 1" "x \<noteq> 0" using x1 by simp_all
  have "fl x = of_int (round_half_even (x / ulp x)) * ulp x"
    unfolding fl_def Let_def ax(1,2) using ax(3) by simp
  then show ?thesis using r by (simp only: x_def)
qed

text \<open>Sums of whole numbers below \<open>2^53\<close> are exact.\<close>

lemma sum_list_of_nat: "sum_list (map of_nat ks) = (of_nat (sum_list ks) :: rat)"
  by (induction ks) simp_all

lemma sum_exact:
  "of_nat a + sum_list (map of_nat ks) < (2::rat) ^ 53 \<Longrightarrow>
   foldl (\<lambda>acc x. js_add acc x) (of_nat a) (map of_nat ks) = of_nat (a + sum_list ks)"
proof (induction ks arbitrary: a)
  case Nil
  then show ?case by simp
next
  case (Cons k ks)
  have lt: "a + k + sum_list ks < 2 ^ 53"
  proof -
    have "(of_nat (a + k + sum_list ks) :: rat) < of_nat (2 ^ 53)"
      using Cons.prems by (simp add: add.assoc sum_list_of_nat)
    then show ?thesis by (simp only: of_nat_less_iff)
  qed
  then have "a + k < 2 ^ 53" by simp
  then have "js_add (of_nat a) (of_nat k) = of_nat (a + k)"
    using fl_of_nat [of "a + k"] by (simp add: js_add_def)
  moreover have "of_nat (a + k) + sum_list (map of_nat ks) < (2::rat) ^ 53"
    using Cons.prems by (simp add: add.assoc)
  ultimately show ?case using Cons.IH [of "a + k"] by (simp add: add.assoc)
qed

lemma mean_nearest_tenth:
  fixes s N :: nat
  assumes N: "0 < N" and s: "20 * s < 2 ^ 53"
  shows "\<bar>of_int (toFixed1_n (js_div (of_nat s) (of_nat N))) / 10 - of_nat s / of_nat N\<bar>
           \<le> (1 / 20 :: rat)"
proof (cases "s = 0")
  case True
  have "\<lfloor>1 / 2 :: rat\<rfloor> = 0" by linarith
  with True show ?thesis by (simp add: js_div_def fl_def toFixed1_n_def)
next
  case False
  define x :: rat where "x = of_nat s / of_nat N"
  define y where "y = fl x"
  define m where "m = \<lfloor>y * 10 + 1 / 2\<rfloor>"
  have xpos: "0 < x" using False N by (simp add: x_def)
  have err: "\<bar>y - x\<bar> \<le> x / 2 ^ 53" unfolding y_def by (rule fl_error [OF xpos])
  have "x / 2 ^ 53 < x" using xpos by simp
  with err have ypos: "0 < y" by linarith
  then have mdef: "toFixed1_n y = m" by (simp add: toFixed1_n_def m_def)
  have m1: "of_int m \<le> y * 10 + 1 / 2" and m2: "y * 10 + 1 / 2 < of_int m + 1"
    unfolding m_def by linarith+
  have Nr: "(0::rat) < of_nat N" using N by simp
  have xN: "x * of_nat N = of_nat s" using N by (simp add: x_def)
  have small: "x / 2 ^ 53 < 1 / (20 * of_nat N)"
  proof -
    have "(of_nat (20 * s) :: rat) < of_nat (2 ^ 53)" using s by (simp only: of_nat_less_iff)
    then have "20 * (of_nat s :: rat) < 2 ^ 53" by simp
    then have "20 * (x * of_nat N) < 2 ^ 53" by (simp only: xN)
    then show ?thesis using Nr by (simp add: field_simps)
  qed
  have up: "of_int m \<le> x * 10 + 1 / 2"
  proof (rule ccontr)
    assume "\<not> of_int m \<le> x * 10 + 1 / 2"
    then have "x * 10 + 1 / 2 < of_int m" by simp
    then have "(x * 10 + 1 / 2) * (2 * of_nat N) < of_int m * (2 * of_nat N)"
      using Nr by (intro mult_strict_right_mono) simp_all
    then have "20 * (x * of_nat N) + of_nat N < of_int m * (2 * of_nat N)"
      by (simp add: algebra_simps)
    then have "(of_int (20 * int s + int N) :: rat) < of_int (m * (2 * int N))"
      by (simp add: xN)
    then have "20 * int s + int N < m * (2 * int N)" by (simp only: of_int_less_iff)
    then have "20 * int s + int N + 1 \<le> m * (2 * int N)" by simp
    then have "(of_int (20 * int s + int N + 1) :: rat) \<le> of_int (m * (2 * int N))"
      by (simp only: of_int_le_iff)
    then have "20 * (x * of_nat N) + of_nat N + 1 \<le> of_int m * (2 * of_nat N)"
      by (simp add: xN)
    also have "\<dots> \<le> (y * 10 + 1 / 2) * (2 * of_nat N)"
      using m1 Nr by (intro mult_right_mono) simp_all
    finally have "1 \<le> 20 * of_nat N * (y - x)" by (simp add: algebra_simps)
    then have "1 / (20 * of_nat N) \<le> y - x" using Nr by (simp add: field_simps)
    with small err show False by linarith
  qed
  have lo: "x * 10 - 1 / 2 \<le> of_int m"
  proof (rule ccontr)
    assume "\<not> x * 10 - 1 / 2 \<le> of_int m"
    then have "of_int m < x * 10 - 1 / 2" by simp
    then have "of_int m * (2 * of_nat N) < (x * 10 - 1 / 2) * (2 * of_nat N)"
      using Nr by (intro mult_strict_right_mono) simp_all
    then have "of_int m * (2 * of_nat N) + of_nat N < 20 * (x * of_nat N)"
      by (simp add: algebra_simps)
    then have "(of_int (m * (2 * int N) + int N) :: rat) < of_int (20 * int s)"
      by (simp add: xN)
    then have "m * (2 * int N) + int N < 20 * int s" by (simp only: of_int_less_iff)
    then have "m * (2 * int N) + int N + 1 \<le> 20 * int s" by simp
    then have "(of_int (m * (2 * int N) + int N + 1) :: rat) \<le> of_int (20 * int s)"
      by (simp only: of_int_le_iff)
    then have "of_int m * (2 * of_nat N) + of_nat N + 1 \<le> 20 * (x * of_nat N)"
      by (simp add: xN)
    moreover have "(y * 10 + 1 / 2) * (2 * of_nat N) < (of_int m + 1) * (2 * of_nat N)"
      using m2 Nr by (intro mult_strict_right_mono) simp_all
    ultimately have "1 < 20 * of_nat N * (x - y)" by (simp add: algebra_simps)
    then have "1 / (20 * of_nat N) < x - y" using Nr by (simp add: field_simps)
    with small err show False by linarith
  qed
  from up lo have "\<bar>of_int m / 10 - x\<bar> \<le> 1 / 20" by linarith
  then show ?thesis by (simp add: mdef [symmetric] y_def x_def js_div_def)
qed

section \<open>The aggregator, field by field\<close>

lemma stars_sum:
  assumes "\<forall>x\<in>set xs. star_value x"
  shows "\<exists>ks. xs = map of_nat ks \<and> sum_list ks \<le> 5 * length xs"
  using assms
proof (induction xs)
  case Nil
  then show ?case by simp
next
  case (Cons x xs)
  then obtain ks where ks: "xs = map of_nat ks" "sum_list ks \<le> 5 * length xs" by auto
  from Cons.prems have "x \<in> \<nat>" "x \<le> 5" by (simp_all add: star_value_def)
  then obtain k :: nat where k: "x = of_nat k" by (auto simp: Nats_def)
  with \<open>x \<le> 5\<close> have "(of_nat k :: rat) \<le> of_nat 5" by simp
  then have "k \<le> 5" by (simp only: of_nat_le_iff)
  with ks k have "x # xs = map of_nat (k # ks) \<and> sum_list (k # ks) \<le> 5 * length (x # xs)"
    by simp
  then show ?case by (rule exI [of _ "k # ks"])
qed

lemma field_mean:
  assumes stars: "\<forall>x\<in>set xs. star_value x" and ne: "xs \<noteq> []" and len: "length xs < 2 ^ 32"
  shows "rounded_to_one_decimal (arithmetic_mean xs)
           (Number_toFixed1 (js_div (foldl js_add 0 xs) (of_nat (length xs))))"
proof -
  from stars_sum [OF stars] obtain ks where
    ks: "xs = map of_nat ks" "sum_list ks \<le> 5 * length xs" by blast
  define s where "s = sum_list ks"
  define N where "N = length xs"
  have N: "0 < N" using ne by (simp add: N_def)
  have "20 * s \<le> 100 * N" using ks(2) by (simp add: s_def N_def)
  also have "\<dots> < 100 * 2 ^ 32" using len by (simp add: N_def)
  also have "\<dots> < (2::nat) ^ 53" by simp
  finally have s20: "20 * s < 2 ^ 53" .
  then have "s < 2 ^ 53" by simp
  then have "(of_nat s :: rat) < of_nat (2 ^ 53)" by (simp only: of_nat_less_iff)
  then have "of_nat 0 + sum_list (map of_nat ks) < (2::rat) ^ 53"
    by (simp add: sum_list_of_nat s_def)
  from sum_exact [OF this] have tot: "foldl js_add 0 xs = of_nat s"
    by (simp add: ks(1) s_def)
  have sm: "sum_list xs = of_nat s" by (simp add: ks(1) sum_list_of_nat s_def)
  show ?thesis
    unfolding rounded_to_one_decimal_def arithmetic_mean_def Number_toFixed1_def tot sm N_def [symmetric]
    using mean_nearest_tenth [OF N s20] by blast
qed

lemma foldl_totals_step:
  "foldl totals_step a rs =
     \<lparr>pr_rating = foldl js_add (pr_rating a) (map rating rs),
      pr_clarity = foldl js_add (pr_clarity a) (map (\<lambda>r. or_zero (clarity r)) rs),
      pr_fairness = foldl js_add (pr_fairness a) (map (\<lambda>r. or_zero (fairness r)) rs),
      pr_punctuality = foldl js_add (pr_punctuality a) (map (\<lambda>r. or_zero (punctuality r)) rs),
      pr_wouldTakeAgain =
        foldl js_add (pr_wouldTakeAgain a) (map (\<lambda>r. or_zero (wouldTakeAgain r)) rs)\<rparr>"
  by (induction rs arbitrary: a) (simp_all add: totals_step_def)

lemma average_entry_fields:
  "pr_rating (average_entry rs) =
     Number_toFixed1 (js_div (foldl js_add 0 (map rating rs)) (of_nat (length rs)))"
  "pr_clarity (average_entry rs) =
     Number_toFixed1 (js_div (foldl js_add 0 (map (\<lambda>r. or_zero (clarity r)) rs))
       (of_nat (length rs)))"
  "pr_fairness (average_entry rs) =
     Number_toFixed1 (js_div (foldl js_add 0 (map (\<lambda>r. or_zero (fairness r)) rs))
       (of_nat (length rs)))"
  "pr_punctuality (average_entry rs) =
     Number_toFixed1 (js_div (foldl js_add 0 (map (\<lambda>r. or_zero (punctuality r)) rs))
       (of_nat (length rs)))"
  "pr_wouldTakeAgain (average_entry rs) =
     Number_toFixed1 (js_div (foldl js_add 0 (map (\<lambda>r. or_zero (wouldTakeAgain r)) rs))
       (of_nat (length rs)))"
  by (simp_all add: average_entry_def Let_def foldl_totals_step totals_init_def)

lemma fetch_loop_lookup:
  "fst (fetch_loop online coll ps (m, c)) p =
     (if p \<in> set ps \<and> online p \<and> filter (\<lambda>d. professorId d = p) coll \<noteq> []
      then Some (average_entry (filter (\<lambda>d. professorId d = p) coll))
      else m p)"
proof (induction ps arbitrary: m c)
  case Nil
  then show ?case by simp
next
  case (Cons q ps)
  show ?case
    by (cases "online q") (auto simp: getDocs_def Cons.IH)
qed

lemma set_uniqueProfessors: "set (uniqueProfessors sections) = professor ` set sections"
  by (simp add: uniqueProfessors_def)

lemma fetchProfessorRatings_lookup:
  "fst (fetchProfessorRatings online coll sections) p =
     (if p \<in> professor ` set sections \<and> online p \<and> filter (\<lambda>d. professorId d = p) coll \<noteq> []
      then Some (average_entry (filter (\<lambda>d. professorId d = p) coll))
      else None)"
  by (simp add: fetchProfessorRatings_def fetch_loop_lookup set_uniqueProfessors)

lemma fetch_loop_console:
  "snd (fetch_loop online coll ps (m, c)) =
     c @ map (\<lambda>p. [''Error fetching ratings for professor:'', p]) (filter (\<lambda>p. \<not> online p) ps)"
proof (induction ps arbitrary: m c)
  case Nil
  then show ?case by simp
next
  case (Cons q ps)
  show ?case
    by (cases "online q") (simp_all add: getDocs_def Cons.IH)
qed

lemma sum_or_zero: "sum_list (map (\<lambda>r. or_zero (f r)) rs) = sum_list (List.map_filter f rs)"
  by (induction rs) (simp_all add: List.map_filter_simps or_zero_def split: option.splits)

lemma example_query:
  "filter (\<lambda>d. professorId d = ''Jane Doe'') example_coll =
     [review_of ''Jane Doe'' 5 (Some 5), review_of ''Jane Doe'' 4 None,
      review_of ''Jane Doe'' 4 None]"
  "filter (\<lambda>d. professorId d = ''Juan Perez'') example_coll = []"
  by (simp_all add: example_coll_def review_of_def)

lemma example_well_formed:
  "well_formed (review_of p 5 (Some 5))" "well_formed (review_of p 4 None)"
  by (simp_all add: well_formed_def star_value_def review_of_def or_zero_def)




lemma fetch_loop_old_lookup:
  "fst (fetch_loop_old online coll ps (m, c)) p =
     (if p \<in> set ps \<and> online p \<and> filter (\<lambda>d. professorId d = p) coll \<noteq> []
      then Some (average_rating (filter (\<lambda>d. professorId d = p) coll))
      else m p)"
proof (induction ps arbitrary: m c)
  case Nil
  then show ?case by simp
next
  case (Cons q ps)
  show ?case
    by (cases "online q") (auto simp: getDocs_def Cons.IH)
qed

lemma fetch_loop_old_console:
  "snd (fetch_loop_old online coll ps (m, c)) =
     c @ map (\<lambda>p. [''Error fetching ratings for professor:'', p]) (filter (\<lambda>p. \<not> online p) ps)"
proof (induction ps arbitrary: m c)
  case Nil
  then show ?case by simp
next
  case (Cons q ps)
  show ?case
    by (cases "online q") (simp_all add: getDocs_def Cons.IH)
qed

lemma mean_5_4_3:
  "Number_toFixed1 (js_div (foldl js_add 0 [5, 4, 3]) 3) = 4"
  "toFixed1 4 = ''4.0''" "js_mul 4 2 = 8" "toFixed1 8 = ''8.0''"
  by code_simp+

lemma average_5_4_3:
  assumes "map rating rs = [5, 4, 3]"
  shows "pr_rating (average_entry rs) = 4" and "average_rating rs = 4"
proof -
  have "length rs = 3" using assms by (metis length_map length_Cons list.size(3) numeral_3_eq_3)
  then show "pr_rating (average_entry rs) = 4"
    using assms mean_5_4_3(1) by (simp add: average_entry_fields)
  then show "average_rating rs = 4"
    by (simp add: average_rating_def average_entry_fields foldl_map)
qed

lemma jane_query:
  "filter (\<lambda>d. professorId d = ''Jane Doe'') jane_coll =
     [review_of ''Jane Doe'' 5 None, review_of ''Jane Doe'' 4 None, review_of ''Jane Doe'' 3 None]"
  "filter (\<lambda>d. professorId d = ''Juan Perez'') jane_coll = []"
  by (simp_all add: jane_coll_def review_of_def)



text \<open>The average of the modal, when the query returns reviews.\<close>

lemma modal_average_rounded:
  assumes "rs = filter (\<lambda>d. professorId d = p) (docs w)" and "rs \<noteq> []"
    and "\<forall>r\<in>set rs. well_formed r" and "length rs < 2 ^ 32"
  shows "rounded_to_one_decimal (arithmetic_mean (map rating rs))
           (averageRating (fst (fetchReviews True p (st, w))))"
proof -
  have "averageRating (fst (fetchReviews True p (st, w))) = average_rating rs"
    using assms(1,2) by (simp add: fetchReviews_def getDocs_def Let_def)
  moreover have "average_rating rs =
      Number_toFixed1 (js_div (foldl js_add 0 (map rating rs)) (of_nat (length (map rating rs))))"
    by (simp add: average_rating_def foldl_map)
  moreover have "rounded_to_one_decimal (arithmetic_mean (map rating rs))
      (Number_toFixed1 (js_div (foldl js_add 0 (map rating rs))
         (of_nat (length (map rating rs)))))"
    using assms(2-4) by (intro field_mean) (simp_all add: well_formed_def)
  ultimately show ?thesis by simp
qed

text \<open>Reading the ratings object under a name that nothing on the prototype chain has.\<close>

lemma proto_not_plain: "plain_name p \<Longrightarrow> p \<noteq> ''__proto__''"
  by (auto simp: plain_name_def Object_prototype_names_def)

lemma entry_field_plain: "plain_name p \<Longrightarrow> entry_field e p = None"
  by (simp add: plain_name_def entry_field_def)

lemma professorRatings_at_plain:
  assumes "plain_name p"
  shows "professorRatings_at m p = (case m p of None \<Rightarrow> Undefined | Some e \<Rightarrow> Stored e)"
proof -
  have "Option.bind (m ''__proto__'') (\<lambda>e. entry_field e p) = None"
    by (cases "m ''__proto__''") (simp_all add: entry_field_plain [OF assms])
  moreover have "p \<notin> set Object_prototype_names" using assms by (simp add: plain_name_def)
  ultimately show ?thesis
    using proto_not_plain [OF assms]
    by (simp add: professorRatings_at_def split: option.splits)
qed

lemma professorRatings_at_stored: "m p = Some e \<Longrightarrow> professorRatings_at m p = Stored e"
  by (cases "p = ''__proto__''") (simp_all add: professorRatings_at_def)

lemma professorRatings_at_old_plain:
  assumes "plain_name p"
  shows "professorRatings_at_old m p = (case m p of None \<Rightarrow> Undefined | Some v \<Rightarrow> Stored v)"
proof -
  have "p \<notin> set Object_prototype_names" using assms by (simp add: plain_name_def)
  then show ?thesis
    using proto_not_plain [OF assms]
    by (simp add: professorRatings_at_old_def split: option.splits)
qed

lemma example_names_plain: "plain_name ''Jane Doe''" "plain_name ''Juan Perez''"
  by (simp_all add: plain_name_def Object_prototype_names_def)

text \<open>
  Under a name that \<^verbatim>\<open>Object.prototype\<close> has, a professor without an entry makes the
  newer button throw; the older variant reads \<^verbatim>\<open>NaN\<close> and shows the grey button.
\<close>

lemma RatingButton_inherited_name:
  "RatingButton darkMode Map.empty ''constructor'' = Inl TypeError"
  "RatingButton_old darkMode (normalizedRating Map.empty ''constructor'') = gray_button darkMode"
  "RatingButton_old darkMode (normalizedRating (Map.empty(''__proto__'' \<mapsto> 4)) ''__proto__'') =
     gray_button darkMode"
  by (simp_all add: RatingButton_def professorRatings_at_def RatingButton_old_def
      normalizedRating_def professorRatings_at_old_def Object_prototype_names_def
      entry_field_def)


section \<open>Properties of the badge colour\<close>

text \<open>
  C5. The badge classification is a function of the mean rating alone, with exactly three
  tiers: every mean of at least 4 is green (positive), every mean of at least 3 and below 4
  is yellow (neutral), every mean below 3 is red (negative). The doubles written 4.0, 3.99
  and 2.99 fall in the positive, the neutral and the negative tier.
\<close>

theorem getRatingBadgeColor_tiers:
  "(4 \<le> mean \<longrightarrow> getRatingBadgeColor mean = ''bg-green-500'') \<and>
   (3 \<le> mean \<and> mean < 4 \<longrightarrow> getRatingBadgeColor mean = ''bg-yellow-500'') \<and>
   (mean < 3 \<longrightarrow> getRatingBadgeColor mean = ''bg-red-500'') \<and>
   getRatingBadgeColor mean \<in> {''bg-green-500'', ''bg-yellow-500'', ''bg-red-500''} \<and>
   getRatingBadgeColor (fl 4) = ''bg-green-500'' \<and>
   getRatingBadgeColor (fl (399 / 100)) = ''bg-yellow-500'' \<and>
   getRatingBadgeColor (fl (299 / 100)) = ''bg-red-500''"
proof -
  have "fl 4 = 4" by code_simp
  moreover have "3 \<le> fl (399 / 100) \<and> fl (399 / 100) < 4" by code_simp
  moreover have "fl (299 / 100) < 3" by code_simp
  ultimately show ?thesis by (simp add: getRatingBadgeColor_def)
qed

theorem getRatingBadgeColor_tiers_witness:
  "(4::rat) \<le> 9 / 2 \<and> getRatingBadgeColor (9 / 2) = ''bg-green-500'' \<and>
   (3::rat) \<le> 7 / 2 \<and> (7 / 2 :: rat) < 4 \<and> getRatingBadgeColor (7 / 2) = ''bg-yellow-500'' \<and>
   (1::rat) < 3 \<and> getRatingBadgeColor 1 = ''bg-red-500''"
  using getRatingBadgeColor_tiers [of "9 / 2"] getRatingBadgeColor_tiers [of "7 / 2"]
    getRatingBadgeColor_tiers [of 1]
  by simp

section \<open>Properties of the aggregator\<close>

text \<open>
  C1. For a professor of the table whose query succeeds, with \<open>rs\<close> the review documents
  of that professor (well formed, fewer than \<open>2^32\<close>, the bound of a JavaScript array):
  when \<open>rs\<close> is empty the ratings object has no entry for the professor; otherwise the
  entry holds, for the overall rating and for each sub-rating (an absent one read as 0),
  the arithmetic mean over \<open>rs\<close> rounded to one decimal place.
\<close>

theorem fetchProfessorRatings_mean:
  assumes "p \<in> professor ` set sections" and "online p"
    and "rs = filter (\<lambda>d. professorId d = p) coll"
    and "\<forall>r\<in>set rs. well_formed r" and "length rs < 2 ^ 32"
  shows "(rs = [] \<longrightarrow> fst (fetchProfessorRatings online coll sections) p = None) \<and>
         (rs \<noteq> [] \<longrightarrow>
            (\<exists>e. fst (fetchProfessorRatings online coll sections) p = Some e \<and>
               rounded_to_one_decimal (arithmetic_mean (map rating rs)) (pr_rating e) \<and>
               rounded_to_one_decimal (arithmetic_mean (map (\<lambda>r. or_zero (clarity r)) rs)) (pr_clarity e) \<and>
               rounded_to_one_decimal (arithmetic_mean (map (\<lambda>r. or_zero (fairness r)) rs)) (pr_fairness e) \<and>
               rounded_to_one_decimal (arithmetic_mean (map (\<lambda>r. or_zero (punctuality r)) rs))
                 (pr_punctuality e) \<and>
               rounded_to_one_decimal (arithmetic_mean (map (\<lambda>r. or_zero (wouldTakeAgain r)) rs))
                 (pr_wouldTakeAgain e)))"
proof (cases "rs = []")
  case True
  then show ?thesis using assms(3) by (simp add: fetchProfessorRatings_lookup)
next
  case False
  have look: "fst (fetchProfessorRatings online coll sections) p = Some (average_entry rs)"
    using False assms(1-3) by (simp add: fetchProfessorRatings_lookup)
  have wf: "\<forall>r\<in>set rs. well_formed r" by (rule assms(4))
  have len: "\<And>f. length (map f rs) < 2 ^ 32" using assms(5) by simp
  have ne: "\<And>f. map f rs \<noteq> []" using False by simp
  have 1: "rounded_to_one_decimal (arithmetic_mean (map rating rs)) (pr_rating (average_entry rs))"
    using field_mean [OF _ ne len, of rating] wf
    by (simp add: average_entry_fields well_formed_def)
  have 2: "rounded_to_one_decimal (arithmetic_mean (map (\<lambda>r. or_zero (clarity r)) rs))
             (pr_clarity (average_entry rs))"
    using field_mean [OF _ ne len, of "\<lambda>r. or_zero (clarity r)"] wf
    by (simp add: average_entry_fields well_formed_def)
  have 3: "rounded_to_one_decimal (arithmetic_mean (map (\<lambda>r. or_zero (fairness r)) rs))
             (pr_fairness (average_entry rs))"
    using field_mean [OF _ ne len, of "\<lambda>r. or_zero (fairness r)"] wf
    by (simp add: average_entry_fields well_formed_def)
  have 4: "rounded_to_one_decimal (arithmetic_mean (map (\<lambda>r. or_zero (punctuality r)) rs))
             (pr_punctuality (average_entry rs))"
    using field_mean [OF _ ne len, of "\<lambda>r. or_zero (punctuality r)"] wf
    by (simp add: average_entry_fields well_formed_def)
  have 5: "rounded_to_one_decimal (arithmetic_mean (map (\<lambda>r. or_zero (wouldTakeAgain r)) rs))
             (pr_wouldTakeAgain (average_entry rs))"
    using field_mean [OF _ ne len, of "\<lambda>r. or_zero (wouldTakeAgain r)"] wf
    by (simp add: average_entry_fields well_formed_def)
  from False look 1 2 3 4 5 show ?thesis by simp
qed

theorem fetchProfessorRatings_mean_witness:
  "(\<exists>e. fst (fetchProfessorRatings (\<lambda>p. True) example_coll example_sections) ''Jane Doe'' = Some e \<and>
      rounded_to_one_decimal (13 / 3) (pr_rating e) \<and>
      rounded_to_one_decimal (5 / 3) (pr_clarity e)) \<and>
   fst (fetchProfessorRatings (\<lambda>p. True) example_coll example_sections) ''Juan Perez'' = None"
proof -
  have a: "''Jane Doe'' \<in> professor ` set example_sections"
    and b: "''Juan Perez'' \<in> professor ` set example_sections"
    by (simp_all add: example_sections_def)
  have wf: "\<forall>r\<in>set (filter (\<lambda>d. professorId d = ''Jane Doe'') example_coll). well_formed r"
    by (simp add: example_query example_well_formed)
  have len: "length (filter (\<lambda>d. professorId d = ''Jane Doe'') example_coll) < 2 ^ 32"
    by (simp add: example_query)
  from fetchProfessorRatings_mean [OF a _ refl wf len, of "\<lambda>p. True"]
  have 1: "\<exists>e. fst (fetchProfessorRatings (\<lambda>p. True) example_coll example_sections) ''Jane Doe'' = Some e \<and>
      rounded_to_one_decimal (13 / 3) (pr_rating e) \<and>
      rounded_to_one_decimal (5 / 3) (pr_clarity e)"
    by (auto simp: example_query arithmetic_mean_def review_of_def or_zero_def)
  from fetchProfessorRatings_mean [OF b _ refl, of "\<lambda>p. True" example_coll]
  have 2: "fst (fetchProfessorRatings (\<lambda>p. True) example_coll example_sections) ''Juan Perez'' = None"
    by (simp add: example_query)
  from 1 2 show ?thesis by blast
qed

text \<open>
  C4. A sub-rating (clarity, fairness, punctuality, wouldTakeAgain) that a review lacks
  adds zero to the sum of that field, and the review still counts in the divisor: the
  entry holds, rounded to one decimal place, the sum of the sub-ratings that are present
  divided by the number of all reviews of the professor.
\<close>

theorem absent_sub_rating_counts_as_zero:
  assumes "p \<in> professor ` set sections" and "online p"
    and "rs = filter (\<lambda>d. professorId d = p) coll" and "rs \<noteq> []"
    and "\<forall>r\<in>set rs. well_formed r" and "length rs < 2 ^ 32"
  shows "\<exists>e. fst (fetchProfessorRatings online coll sections) p = Some e \<and>
           rounded_to_one_decimal
             (sum_list (List.map_filter clarity rs) / of_nat (length rs)) (pr_clarity e) \<and>
           rounded_to_one_decimal
             (sum_list (List.map_filter fairness rs) / of_nat (length rs)) (pr_fairness e) \<and>
           rounded_to_one_decimal
             (sum_list (List.map_filter punctuality rs) / of_nat (length rs)) (pr_punctuality e) \<and>
           rounded_to_one_decimal
             (sum_list (List.map_filter wouldTakeAgain rs) / of_nat (length rs))
             (pr_wouldTakeAgain e)"
proof -
  have look: "fst (fetchProfessorRatings online coll sections) p = Some (average_entry rs)"
    using assms(1-4) by (simp add: fetchProfessorRatings_lookup)
  have wf: "\<forall>r\<in>set rs. well_formed r" by (rule assms(5))
  have len: "\<And>f. length (map f rs) < 2 ^ 32" using assms(6) by simp
  have ne: "\<And>f. map f rs \<noteq> []" using assms(4) by simp
  have 1: "rounded_to_one_decimal (sum_list (List.map_filter clarity rs) / of_nat (length rs))
             (pr_clarity (average_entry rs))"
    using field_mean [OF _ ne len, of "\<lambda>r. or_zero (clarity r)"] wf
    by (simp add: average_entry_fields well_formed_def arithmetic_mean_def sum_or_zero)
  have 2: "rounded_to_one_decimal (sum_list (List.map_filter fairness rs) / of_nat (length rs))
             (pr_fairness (average_entry rs))"
    using field_mean [OF _ ne len, of "\<lambda>r. or_zero (fairness r)"] wf
    by (simp add: average_entry_fields well_formed_def arithmetic_mean_def sum_or_zero)
  have 3: "rounded_to_one_decimal
             (sum_list (List.map_filter punctuality rs) / of_nat (length rs))
             (pr_punctuality (average_entry rs))"
    using field_mean [OF _ ne len, of "\<lambda>r. or_zero (punctuality r)"] wf
    by (simp add: average_entry_fields well_formed_def arithmetic_mean_def sum_or_zero)
  have 4: "rounded_to_one_decimal
             (sum_list (List.map_filter wouldTakeAgain rs) / of_nat (length rs))
             (pr_wouldTakeAgain (average_entry rs))"
    using field_mean [OF _ ne len, of "\<lambda>r. or_zero (wouldTakeAgain r)"] wf
    by (simp add: average_entry_fields well_formed_def arithmetic_mean_def sum_or_zero)
  from look 1 2 3 4 show ?thesis by simp
qed

theorem absent_sub_rating_counts_as_zero_witness:
  "\<exists>e. fst (fetchProfessorRatings (\<lambda>p. True) example_coll example_sections) ''Jane Doe'' = Some e \<and>
      rounded_to_one_decimal (5 / 3) (pr_clarity e) \<and>
      pr_clarity e = Number_of_tenths 17 \<and>
      rounded_to_one_decimal 0 (pr_fairness e)"
proof -
  have a: "''Jane Doe'' \<in> professor ` set example_sections"
    by (simp add: example_sections_def)
  have ne: "filter (\<lambda>d. professorId d = ''Jane Doe'') example_coll \<noteq> []"
    by (simp add: example_query)
  have wf: "\<forall>r\<in>set (filter (\<lambda>d. professorId d = ''Jane Doe'') example_coll). well_formed r"
    by (simp add: example_query example_well_formed)
  have len: "length (filter (\<lambda>d. professorId d = ''Jane Doe'') example_coll) < 2 ^ 32"
    by (simp add: example_query)
  from absent_sub_rating_counts_as_zero [OF a _ refl ne wf len, of "\<lambda>p. True"]
  obtain e where e:
    "fst (fetchProfessorRatings (\<lambda>p. True) example_coll example_sections) ''Jane Doe'' = Some e"
    "rounded_to_one_decimal (5 / 3) (pr_clarity e)"
    "rounded_to_one_decimal 0 (pr_fairness e)"
    by (auto simp: example_query review_of_def List.map_filter_simps)
  have "foldl js_add 0 [5, 0, 0] = 5" by code_simp
  moreover have "toFixed1_n (js_div 5 3) = 17" by code_simp
  moreover have "e = average_entry (filter (\<lambda>d. professorId d = ''Jane Doe'') example_coll)"
    using e(1) a by (simp add: fetchProfessorRatings_lookup example_query)
  then have "pr_clarity e = Number_toFixed1 (js_div (foldl js_add 0 [5, 0, 0]) 3)"
    by (simp add: average_entry_fields example_query review_of_def or_zero_def)
  ultimately have "pr_clarity e = Number_of_tenths 17"
    by (simp add: Number_toFixed1_def)
  with e show ?thesis by blast
qed




text \<open>
  C9. On every list of reviews (not empty: both variants divide under the test
  \<^verbatim>\<open>reviews.length > 0\<close>), the mean of the overall rating that the older CourseTable
  computes is the \<open>rating\<close> field of the entry that the newer CourseTable computes; the
  two ratings objects agree on it for every professor, and the two consoles are equal.
\<close>

theorem old_and_new_overall_mean_agree:
  "(rs \<noteq> [] \<longrightarrow> average_rating rs = pr_rating (average_entry rs)) \<and>
   fst (fetchProfessorRatings_old online coll sections) p =
     map_option pr_rating (fst (fetchProfessorRatings online coll sections) p) \<and>
   snd (fetchProfessorRatings_old online coll sections) =
     snd (fetchProfessorRatings online coll sections)"
proof -
  have avg: "\<And>rs. average_rating rs = pr_rating (average_entry rs)"
    by (simp add: average_rating_def average_entry_fields foldl_map)
  have "fst (fetchProfessorRatings_old online coll sections) p =
     map_option pr_rating (fst (fetchProfessorRatings online coll sections) p)"
    by (simp add: fetchProfessorRatings_old_def fetchProfessorRatings_def
        fetch_loop_old_lookup fetch_loop_lookup avg)
  moreover have "snd (fetchProfessorRatings_old online coll sections) =
     snd (fetchProfessorRatings online coll sections)"
    by (simp add: fetchProfessorRatings_old_def fetchProfessorRatings_def
        fetch_loop_old_console fetch_loop_console)
  ultimately show ?thesis using avg by simp
qed

theorem old_and_new_overall_mean_agree_witness:
  "example_coll \<noteq> [] \<and>
   average_rating example_coll = pr_rating (average_entry example_coll) \<and>
   fst (fetchProfessorRatings_old (\<lambda>p. True) example_coll example_sections) ''Jane Doe'' =
     map_option pr_rating
       (fst (fetchProfessorRatings (\<lambda>p. True) example_coll example_sections) ''Jane Doe'')"
proof -
  have "example_coll \<noteq> []" by (simp add: example_coll_def)
  with old_and_new_overall_mean_agree
    [of example_coll "\<lambda>p. True" example_coll example_sections "''Jane Doe''"]
  show ?thesis by simp
qed

text \<open>
  C8, as the code has it. For a professor of the table with a plain name whose query
  succeeds and whose reviews have the overall ratings 5, 4, 3: both variants of
  CourseTable compute the mean 4 and colour the button green (the positive tier); the
  button of \<^verbatim>\<open>src/components/CourseTable.tsx\<close> reads \<open>4.0/5\<close>, the button of the older
  variant shows the mean on its ten-point scale and reads \<open>8.0/10\<close>. For such a professor
  without reviews, in both variants, the ratings object has no entry and the button reads
  \<open>Sin calificaci..n\<close> (o with acute).
\<close>

theorem rating_button_display:
  assumes "p \<in> professor ` set sections" and "online p"
    and "rs = filter (\<lambda>d. professorId d = p) coll" and "plain_name p"
  shows "(map rating rs = [5, 4, 3] \<longrightarrow>
            (\<exists>e. fst (fetchProfessorRatings online coll sections) p = Some e \<and> pr_rating e = 4) \<and>
            RatingButton darkMode (fst (fetchProfessorRatings online coll sections)) p =
              Inr \<lparr>colour = ''bg-green-500'', caption = ''4.0/5''\<rparr> \<and>
            fst (fetchProfessorRatings_old online coll sections) p = Some 4 \<and>
            RatingButton_old darkMode
                (normalizedRating (fst (fetchProfessorRatings_old online coll sections)) p) =
              \<lparr>colour = ''bg-green-500'', caption = ''8.0/10''\<rparr>) \<and>
         (rs = [] \<longrightarrow>
            fst (fetchProfessorRatings online coll sections) p = None \<and>
            RatingButton darkMode (fst (fetchProfessorRatings online coll sections)) p =
              Inr (gray_button darkMode) \<and>
            fst (fetchProfessorRatings_old online coll sections) p = None \<and>
            RatingButton_old darkMode
                (normalizedRating (fst (fetchProfessorRatings_old online coll sections)) p) =
              gray_button darkMode \<and>
            caption (gray_button darkMode) = Sin_calificacion)"
proof (intro conjI impI)
  assume r: "map rating rs = [5, 4, 3]"
  then have ne: "rs \<noteq> []" by auto
  have new: "fst (fetchProfessorRatings online coll sections) p = Some (average_entry rs)"
    using assms ne by (simp add: fetchProfessorRatings_lookup)
  have old: "fst (fetchProfessorRatings_old online coll sections) p = Some (average_rating rs)"
    using assms ne
    by (simp add: fetchProfessorRatings_old_def fetch_loop_old_lookup set_uniqueProfessors)
  show "\<exists>e. fst (fetchProfessorRatings online coll sections) p = Some e \<and> pr_rating e = 4"
    using new average_5_4_3(1) [OF r] by simp
  show "RatingButton darkMode (fst (fetchProfessorRatings online coll sections)) p =
          Inr \<lparr>colour = ''bg-green-500'', caption = ''4.0/5''\<rparr>"
    using new average_5_4_3(1) [OF r]
    by (simp add: RatingButton_def professorRatings_at_stored getRatingBadgeColor_def
        mean_5_4_3)
  show "fst (fetchProfessorRatings_old online coll sections) p = Some 4"
    using old average_5_4_3(2) [OF r] by simp
  show "RatingButton_old darkMode
          (normalizedRating (fst (fetchProfessorRatings_old online coll sections)) p) =
          \<lparr>colour = ''bg-green-500'', caption = ''8.0/10''\<rparr>"
    using old average_5_4_3(2) [OF r]
    by (simp add: RatingButton_old_def normalizedRating_def
        professorRatings_at_old_plain [OF assms(4)] getRatingBadgeColor_def mean_5_4_3)
next
  assume e: "rs = []"
  show new: "fst (fetchProfessorRatings online coll sections) p = None"
    using assms e by (simp add: fetchProfessorRatings_lookup)
  show old: "fst (fetchProfessorRatings_old online coll sections) p = None"
    using assms e
    by (simp add: fetchProfessorRatings_old_def fetch_loop_old_lookup set_uniqueProfessors)
  show "RatingButton darkMode (fst (fetchProfessorRatings online coll sections)) p =
          Inr (gray_button darkMode)"
    using new by (simp add: RatingButton_def professorRatings_at_plain [OF assms(4)])
  show "RatingButton_old darkMode
          (normalizedRating (fst (fetchProfessorRatings_old online coll sections)) p) =
          gray_button darkMode"
    using old
    by (simp add: RatingButton_old_def normalizedRating_def
        professorRatings_at_old_plain [OF assms(4)])
  show "caption (gray_button darkMode) = Sin_calificacion"
    by (simp add: gray_button_def)
qed

theorem rating_button_display_witness:
  "map rating (filter (\<lambda>d. professorId d = ''Jane Doe'') jane_coll) = [5, 4, 3] \<and>
   plain_name ''Jane Doe'' \<and>
   RatingButton False (fst (fetchProfessorRatings (\<lambda>p. True) jane_coll example_sections))
       ''Jane Doe'' = Inr \<lparr>colour = ''bg-green-500'', caption = ''4.0/5''\<rparr> \<and>
   filter (\<lambda>d. professorId d = ''Juan Perez'') jane_coll = [] \<and>
   plain_name ''Juan Perez'' \<and>
   RatingButton False (fst (fetchProfessorRatings (\<lambda>p. True) jane_coll example_sections))
       ''Juan Perez'' = Inr (gray_button False) \<and>
   caption (gray_button False) = Sin_calificacion"
proof -
  have a: "''Jane Doe'' \<in> professor ` set example_sections"
    and b: "''Juan Perez'' \<in> professor ` set example_sections"
    by (simp_all add: example_sections_def)
  have r: "map rating (filter (\<lambda>d. professorId d = ''Jane Doe'') jane_coll) = [5, 4, 3]"
    by (simp add: jane_query review_of_def)
  note t1 = rating_button_display
    [OF a _ refl example_names_plain(1), of "\<lambda>p. True" jane_coll False, THEN conjunct1]
  note t2 = rating_button_display
    [OF b _ refl example_names_plain(2), of "\<lambda>p. True" jane_coll False, THEN conjunct2]
  from t1 r t2 jane_query(2) example_names_plain show ?thesis by simp
qed

text \<open>
  The older variant on the reviews 5, 4, 3: its button does not read \<open>4.0/5\<close>.
\<close>

theorem older_rating_button_counterexample:
  "map rating (filter (\<lambda>d. professorId d = ''Jane Doe'') jane_coll) = [5, 4, 3] \<and>
   caption (RatingButton_old False
      (normalizedRating (fst (fetchProfessorRatings_old (\<lambda>p. True) jane_coll example_sections))
         ''Jane Doe'')) = ''8.0/10'' \<and>
   caption (RatingButton_old False
      (normalizedRating (fst (fetchProfessorRatings_old (\<lambda>p. True) jane_coll example_sections))
         ''Jane Doe'')) \<noteq> ''4.0/5''"
proof -
  have r: "map rating (filter (\<lambda>d. professorId d = ''Jane Doe'') jane_coll) = [5, 4, 3]"
    by (simp add: jane_query review_of_def)
  have "fst (fetchProfessorRatings_old (\<lambda>p. True) jane_coll example_sections) ''Jane Doe'' =
          Some (average_rating (filter (\<lambda>d. professorId d = ''Jane Doe'') jane_coll))"
    by (simp add: fetchProfessorRatings_old_def fetch_loop_old_lookup set_uniqueProfessors
        example_sections_def jane_query)
  then have "caption (RatingButton_old False
      (normalizedRating (fst (fetchProfessorRatings_old (\<lambda>p. True) jane_coll example_sections))
         ''Jane Doe'')) = ''8.0/10''"
    using average_5_4_3(2) [OF r]
    by (simp add: RatingButton_old_def normalizedRating_def
        professorRatings_at_old_plain [OF example_names_plain(1)] mean_5_4_3)
  with r show ?thesis by simp
qed

section \<open>Properties of the review submission\<close>

text \<open>
  C2. Without an authenticated user, \<^verbatim>\<open>handleSubmitReview\<close> shows the toast that asks
  to sign in and does nothing else: the state, the collection and the list of calls to
  the store are as before. In CourseTable, \<^verbatim>\<open>handleRateClick\<close> hands the click to
  \<^verbatim>\<open>onRateSection\<close> and the review modal is not shown.
\<close>

theorem unauthenticated_submit_writes_nothing:
  "handleSubmitReview None write_ok fetch_ok now p (st, w) =
     (st, w\<lparr>toasts := toasts w @ [ToastError Debes_iniciar_sesion]\<rparr>) \<and>
   docs (snd (handleSubmitReview None write_ok fetch_ok now p (st, w))) = docs w \<and>
   calls (snd (handleSubmitReview None write_ok fetch_ok now p (st, w))) = calls w \<and>
   handleRateClick None section_id p t =
     t\<lparr>onRateSection_calls := onRateSection_calls t @ [section_id]\<rparr> \<and>
   showReviewModal (handleRateClick None section_id p t) = showReviewModal t \<and>
   \<not> ReviewModal_shown None t"
  by (simp add: handleSubmitReview_def handleRateClick_def ReviewModal_shown_def)

text \<open>
  C3. When the user is authenticated and \<^verbatim>\<open>addDoc\<close> succeeds, the collection grows
  by exactly the new document (professor, rating and comment of the form, the clock of
  the client as timestamp), the success toast is shown and one query for the professor
  follows the write. That query returns the new document; when it succeeds, the reviews
  and the average of the modal are those of the grown list, and a run of the aggregator
  on the new collection computes the entry of the professor over the grown list.
\<close>

theorem successful_submit_appends_and_refetches:
  assumes "handleSubmitReview (Some u) True fetch_ok now p (st, w) = (st', w')"
    and "d = new_review u now p st"
  shows "docs w' = docs w @ [d] \<and>
         professorId d = p \<and> rating d = newRating st \<and> comment d = newComment st \<and>
         userId d = uid u \<and> timestamp d = now \<and>
         calls w' = calls w @ [AddDoc d, GetDocs p] \<and>
         toasts w' = toasts w @ [ToastSuccess Resena_enviada] \<and>
         getDocs True (docs w') p = Inr (filter (\<lambda>x. professorId x = p) (docs w) @ [d]) \<and>
         (fetch_ok \<longrightarrow>
            reviews st' = filter (\<lambda>x. professorId x = p) (docs w) @ [d] \<and>
            averageRating st' = average_rating (filter (\<lambda>x. professorId x = p) (docs w) @ [d])) \<and>
         (p \<in> professor ` set sections \<and> online p \<longrightarrow>
            fst (fetchProfessorRatings online (docs w') sections) p =
              Some (average_entry (filter (\<lambda>x. professorId x = p) (docs w) @ [d])))"
proof -
  define d0 where "d0 = new_review u now p st"
  define rs where "rs = filter (\<lambda>x. professorId x = p) (docs w) @ [d0]"
  have pd: "professorId d0 = p" by (simp add: d0_def new_review_def)
  have q: "filter (\<lambda>x. professorId x = p) (docs w @ [d0]) = rs"
    by (simp add: rs_def pd)
  have run: "handleSubmitReview (Some u) True fetch_ok now p (st, w) =
      (if fetch_ok
       then st\<lparr>submitting := True, newComment := [], newRating := 5, loading := True,
              reviews := rs, averageRating := average_rating rs, loading := False,
              submitting := False\<rparr>
       else st\<lparr>submitting := True, newComment := [], newRating := 5, loading := True,
              loading := False, submitting := False\<rparr>,
       if fetch_ok
       then w\<lparr>calls := calls w @ [AddDoc d0], docs := docs w @ [d0],
              toasts := toasts w @ [ToastSuccess Resena_enviada],
              calls := calls w @ [AddDoc d0, GetDocs p]\<rparr>
       else w\<lparr>calls := calls w @ [AddDoc d0], docs := docs w @ [d0],
              toasts := toasts w @ [ToastSuccess Resena_enviada],
              calls := calls w @ [AddDoc d0, GetDocs p],
              console_out := console_out w @ [[''Error fetching reviews:'']]\<rparr>)"
    using pd
    by (simp add: handleSubmitReview_def addDoc_def fetchReviews_def getDocs_def Let_def
        d0_def rs_def)
  from assms(1) have st': "st' = fst (handleSubmitReview (Some u) True fetch_ok now p (st, w))"
    and w': "w' = snd (handleSubmitReview (Some u) True fetch_ok now p (st, w))"
    by simp_all
  have w1: "docs w' = docs w @ [d0]" "calls w' = calls w @ [AddDoc d0, GetDocs p]"
    "toasts w' = toasts w @ [ToastSuccess Resena_enviada]"
    unfolding w' run by simp_all
  have s1: "fetch_ok \<longrightarrow> reviews st' = rs \<and> averageRating st' = average_rating rs"
    unfolding st' run by simp
  have agg: "p \<in> professor ` set sections \<and> online p \<longrightarrow>
            fst (fetchProfessorRatings online (docs w') sections) p = Some (average_entry rs)"
    unfolding w1(1) fetchProfessorRatings_lookup q by (simp add: rs_def)
  have g: "getDocs True (docs w') p = Inr rs"
    unfolding w1(1) getDocs_def q by simp
  have f: "rating d0 = newRating st" "comment d0 = newComment st" "userId d0 = uid u"
    "timestamp d0 = now"
    by (simp_all add: d0_def new_review_def)
  have dd: "d = d0" by (simp add: assms(2) d0_def)
  show ?thesis
    unfolding dd using w1 s1 agg g f pd unfolding rs_def by blast
qed

theorem successful_submit_appends_and_refetches_witness:
  "docs (snd (handleSubmitReview (Some example_user) True True ''2024-06-01T09:30:00.000Z''
       ''Jane Doe'' (example_form, example_world))) =
     example_coll @
       [new_review example_user ''2024-06-01T09:30:00.000Z'' ''Jane Doe'' example_form] \<and>
   length (reviews (fst (handleSubmitReview (Some example_user) True True
       ''2024-06-01T09:30:00.000Z'' ''Jane Doe'' (example_form, example_world)))) = 4"
proof -
  obtain st' w' where h: "handleSubmitReview (Some example_user) True True
       ''2024-06-01T09:30:00.000Z'' ''Jane Doe'' (example_form, example_world) = (st', w')"
    by (cases "handleSubmitReview (Some example_user) True True
       ''2024-06-01T09:30:00.000Z'' ''Jane Doe'' (example_form, example_world)")
  have dw: "docs example_world = example_coll" by (simp add: example_world_def)
  from successful_submit_appends_and_refetches [OF h refl, of "[]" "\<lambda>p. True"]
  have "docs w' = example_coll @
       [new_review example_user ''2024-06-01T09:30:00.000Z'' ''Jane Doe'' example_form] \<and>
     length (reviews st') = 4"
    by (simp add: dw example_query)
  then show ?thesis by (simp add: h)
qed

text \<open>
  C6. When \<^verbatim>\<open>addDoc\<close> is rejected, the error toast is shown and the error is logged;
  the reviews, the average, the form values (rating and comment) and the loading flag of
  the modal are as before, the collection is unchanged, and \<^verbatim>\<open>addDoc\<close> was called
  exactly once.
\<close>

theorem failed_write_changes_nothing:
  "handleSubmitReview (Some u) False fetch_ok now p (st, w) =
     (st\<lparr>submitting := False\<rparr>,
      w\<lparr>calls := calls w @ [AddDoc (new_review u now p st)],
        console_out := console_out w @ [[Error_al_enviar @ '':'']],
        toasts := toasts w @ [ToastError Error_al_enviar]\<rparr>) \<and>
   reviews (fst (handleSubmitReview (Some u) False fetch_ok now p (st, w))) = reviews st \<and>
   averageRating (fst (handleSubmitReview (Some u) False fetch_ok now p (st, w))) =
     averageRating st \<and>
   newRating (fst (handleSubmitReview (Some u) False fetch_ok now p (st, w))) = newRating st \<and>
   newComment (fst (handleSubmitReview (Some u) False fetch_ok now p (st, w))) = newComment st \<and>
   loading (fst (handleSubmitReview (Some u) False fetch_ok now p (st, w))) = loading st \<and>
   docs (snd (handleSubmitReview (Some u) False fetch_ok now p (st, w))) = docs w \<and>
   length (filter (\<lambda>c. case c of AddDoc x \<Rightarrow> True | GetDocs x \<Rightarrow> False)
      (calls (snd (handleSubmitReview (Some u) False fetch_ok now p (st, w))))) =
     length (filter (\<lambda>c. case c of AddDoc x \<Rightarrow> True | GetDocs x \<Rightarrow> False) (calls w)) + 1"
  by (simp add: handleSubmitReview_def addDoc_def Let_def)

section \<open>Properties of the modal\<close>




end
